theory Spec2Isabelle
  imports Main "HOL-Library.Multiset" "HOL-Library.Sublist" "HOL-Library.Word"
begin

section \<open>Backend: the two versions of \<open>main.py\<close> given in the tutorials\<close>

subsection \<open>What the libraries hand to the code\<close>

text \<open>
  The response object of \<open>requests\<close>: \<open>page.content\<close> is the body as raw bytes,
  \<open>page.text\<close> is the body decoded by the library into a string, \<open>page.encoding\<close> is the
  encoding declared by the headers of the response (\<open>None\<close> when they declare none) and
  \<open>page.apparent_encoding\<close> is the encoding the library infers from the bytes.
\<close>

type_synonym bytes = "8 word list"

record Response =
  status_code :: nat
  page_content :: bytes
  page_text :: string
  encoding :: "string option"
  apparent_encoding :: string

text \<open>
  An HTML parser of a library is given either bytes (\<open>page.content\<close>) or a string
  (\<open>page.text\<close>); the two are kept apart, so that what a parser was given can be read off.
\<close>

datatype markup = RawBytes bytes | DecodedText string

text \<open>
  What the code reads from a parsed \<open>BeautifulSoup\<close> document: \<open>soup.title\<close> is a tag
  or \<open>None\<close> (a tag object is always truthy), and \<open>tag.string\<close> is a string or \<open>None\<close>.
\<close>

datatype Tag = Tag (tag_string: "string option")

datatype Soup = Soup (soup_title: "Tag option")

text \<open>
  What the code reads from a \<open>readability\<close> document: the results of \<open>doc.title()\<close> and
  of \<open>doc.summary(html_partial=True)\<close>, each a string or the exception raised.
\<close>

record Document =
  doc_title :: "string + string"
  doc_summary :: "string + string"

text \<open>
  A row of the table \<open>links\<close> (\<open>id\<close> generated as identity, \<open>created_at\<close> defaulting to
  \<open>now()\<close>, \<open>url\<close> not null, \<open>title\<close> and \<open>content\<close> nullable text), and the table with its
  identity counter.
\<close>

record row =
  row_id :: nat
  row_created_at :: int
  row_url :: string
  row_title :: "string option"
  row_content :: "string option"

record db =
  rows :: "row list"
  next_id :: nat

datatype HTTPException = HTTPException (status: nat) (detail: string)

text \<open>
  The library calls of \<open>add_link\<close>, as parameters. An exception is represented by its
  message \<open>str(e)\<close>, the only thing the handler reads from it; \<open>Inl\<close> is the exception.
  \<^item> \<open>requests_get url headers\<close>: the response, or the exception raised (transport failure,
    timeout);
  \<^item> \<open>raise_for_status page\<close>: the exception raised for the status of the response, if any;
  \<^item> \<open>BeautifulSoup markup\<close> with the parser \<open>html.parser\<close>, and \<open>Document markup\<close>: the
    parsed document, or the exception raised;
  \<^item> \<open>now\<close>: the clock of the database at the insertion;
  \<^item> \<open>insert_error\<close>: the exception raised by the insertion, if any.

  Two functions of the libraries that the code does not call itself, but that the
  libraries use to turn bytes into text:
  \<^item> \<open>decode enc b\<close>: the bytes \<open>b\<close> decoded with the encoding \<open>enc\<close>;
  \<^item> \<open>detect_encoding b\<close>: the encoding \<open>BeautifulSoup\<close> settles on for a document given as
    bytes, the one the document declares or else the one detected from the bytes.
\<close>

record env =
  requests_get :: "string \<Rightarrow> (string \<times> string) list \<Rightarrow> string + Response"
  raise_for_status :: "Response \<Rightarrow> string option"
  BeautifulSoup :: "markup \<Rightarrow> string + Soup"
  Document :: "markup \<Rightarrow> string + Document"
  now :: int
  insert_error :: "string option"
  decode :: "string \<Rightarrow> bytes \<Rightarrow> string"
  detect_encoding :: "bytes \<Rightarrow> string"




subsection \<open>The table\<close>

text \<open>
  \<^verbatim>\<open>supabase.table('links').insert({...}).execute()\<close>: the new row gets the next
  identity and the current time, and is returned.
\<close>

definition insert_row ::
  "env \<Rightarrow> db \<Rightarrow> string \<Rightarrow> string option \<Rightarrow> string option \<Rightarrow> string + (db \<times> row)" where
  "insert_row E d u t c =
     (case insert_error E of
        Some e \<Rightarrow> Inl e
      | None \<Rightarrow>
          (let r = \<lparr>row_id = next_id d, row_created_at = now E, row_url = u,
                    row_title = t, row_content = c\<rparr>
           in Inr (d\<lparr>rows := rows d @ [r], next_id := Suc (next_id d)\<rparr>, r)))"

text \<open>
  \<^verbatim>\<open>
  @app.get("/links")
  def get_links():
      response = supabase.table('links').select("*").order('created_at', desc=True).execute()
      return response.data
  \<close>
\<close>

definition order_created_at_desc :: "row list \<Rightarrow> row list" where
  "order_created_at_desc rs = sort_key (\<lambda>r. - row_created_at r) rs"

definition get_links :: "db \<Rightarrow> row list" where
  "get_links d = order_created_at_desc (rows d)"

subsection \<open>\<open>add_link\<close>\<close>

definition headers :: "(string \<times> string) list" where
  "headers =
     [(''User-Agent'',
       ''Mozilla/5.0 (Windows NT 10.0; Win64; x64) AppleWebKit/537.36 (KHTML, like Gecko) Chrome/91.0.4472.124 Safari/537.36'')]"

text \<open>
  The first version (building-the-mvp.md):
  \<^verbatim>\<open>
  def add_link(link: LinkCreate):
      try:
          headers = {...}
          page = requests.get(link.url, headers=headers)
          page.raise_for_status()
          soup = BeautifulSoup(page.content, 'html.parser')
          title = soup.title.string if soup.title else "No title found"
          response = supabase.table('links').insert({"url": link.url, "title": title}).execute()
          return response.data[0]
      except Exception as e:
          raise HTTPException(status_code=500, detail=str(e))
  \<close>
  Every call of the \<open>try\<close> block may raise; the handler turns whatever was raised into
  one \<open>HTTPException\<close>, and nothing has been inserted by then.
\<close>

definition mvp_title :: "Soup \<Rightarrow> string option" where
  "mvp_title soup =
     (case soup_title soup of
        Some t \<Rightarrow> tag_string t
      | None \<Rightarrow> Some ''No title found'')"

text \<open>The part of the first version after the fetch: parsing, title, insertion.\<close>

definition parse_and_store :: "env \<Rightarrow> db \<Rightarrow> string \<Rightarrow> markup \<Rightarrow> db \<times> (HTTPException + row)" where
  "parse_and_store E d u m =
     (case BeautifulSoup E m of
        Inl e \<Rightarrow> (d, Inl (HTTPException 500 e))
      | Inr soup \<Rightarrow>
          (let title = mvp_title soup
           in (case insert_row E d u title None of
                 Inl e \<Rightarrow> (d, Inl (HTTPException 500 e))
               | Inr (d', r) \<Rightarrow> (d', Inr r))))"

definition add_link_mvp :: "env \<Rightarrow> db \<Rightarrow> string \<Rightarrow> db \<times> (HTTPException + row)" where
  "add_link_mvp E d u =
     (case requests_get E u headers of
        Inl e \<Rightarrow> (d, Inl (HTTPException 500 e))
      | Inr page \<Rightarrow>
          (case raise_for_status E page of
             Some e \<Rightarrow> (d, Inl (HTTPException 500 e))
           | None \<Rightarrow> parse_and_store E d u (RawBytes (page_content page))))"

text \<open>
  The second version (phase-2-reader-view.md) replaces the parsing and the insertion:
  \<^verbatim>\<open>
          doc = Document(page.text) # We use page.text to avoid encoding errors
          title = doc.title()
          content = doc.summary(html_partial=True) # Get clean HTML content
          response = supabase.table('links').insert({
              "url": link.url, "title": title, "content": content}).execute()
  \<close>
\<close>

definition extract_and_store :: "env \<Rightarrow> db \<Rightarrow> string \<Rightarrow> markup \<Rightarrow> db \<times> (HTTPException + row)" where
  "extract_and_store E d u m =
     (case Document E m of
        Inl e \<Rightarrow> (d, Inl (HTTPException 500 e))
      | Inr doc \<Rightarrow>
          (case doc_title doc of
             Inl e \<Rightarrow> (d, Inl (HTTPException 500 e))
           | Inr title \<Rightarrow>
               (case doc_summary doc of
                  Inl e \<Rightarrow> (d, Inl (HTTPException 500 e))
                | Inr content \<Rightarrow>
                    (case insert_row E d u (Some title) (Some content) of
                       Inl e \<Rightarrow> (d, Inl (HTTPException 500 e))
                     | Inr (d', r) \<Rightarrow> (d', Inr r)))))"

definition add_link :: "env \<Rightarrow> db \<Rightarrow> string \<Rightarrow> db \<times> (HTTPException + row)" where
  "add_link E d u =
     (case requests_get E u headers of
        Inl e \<Rightarrow> (d, Inl (HTTPException 500 e))
      | Inr page \<Rightarrow>
          (case raise_for_status E page of
             Some e \<Rightarrow> (d, Inl (HTTPException 500 e))
           | None \<Rightarrow> extract_and_store E d u (DecodedText (page_text page))))"

subsection \<open>The categorizer\<close>

text \<open>
  Modelled from the spec: the outcome of the one call to the classification backend, which
  is not among the sources. The backend returns a label, is unreachable, or times out
  (spec, section 4.3).
\<close>

datatype classification_outcome = Returned string | Unreachable | TimedOut

text \<open>
  Modelled from the spec: the closed category set of the categorizer (spec, section 3),
  missing from the sources with the categorizer itself.
\<close>

definition category_set :: "string list" where
  "category_set =
     [''Technology'', ''History'', ''Health & Wellness'', ''Science'',
      ''Business & Finance'', ''Arts & Culture'', ''Productivity'', ''Other'']"

text \<open>
  Modelled from the spec: the categorizer of the backend (the classification step of
  ingestion) is not among the sources, which hold only the list of labels of the frontend.
  The spec, section 4.3: the categorizer delegates to a classification backend, validates
  the label against the closed category set, and resolves to \<open>Other\<close> when the backend is
  unreachable, times out, or returns a label outside the closed set.
\<close>

definition classify :: "(string \<Rightarrow> string \<Rightarrow> classification_outcome) \<Rightarrow> string \<Rightarrow> string \<Rightarrow> string" where
  "classify backend ttl cnt =
     (case backend ttl cnt of
        Returned label \<Rightarrow> (if label \<in> set category_set then label else ''Other'')
      | Unreachable \<Rightarrow> ''Other''
      | TimedOut \<Rightarrow> ''Other'')"

section \<open>Frontend (frontend/src/app/page.tsx)\<close>

subsection \<open>The link list and its category filter\<close>

text \<open>
  The three \<open>Link\<close> interfaces of the pages: the fields of the first page, extended by
  \<^verbatim>\<open>category?: string\<close> on the page with the filter (an absent field is \<open>None\<close>) and by
  \<^verbatim>\<open>content: string\<close> on the reader page. The field \<open>id\<close> is called \<open>link_id\<close>, since
  \<open>id\<close> is the identity function of HOL.
\<close>

record Link_base =
  link_id :: nat
  url :: string
  title :: string
  created_at :: string

record Link = Link_base +
  category :: "string option"

record Link_read = Link_base +
  content :: string

text \<open>The constant of the page, with the pseudo-label \<open>All\<close> in front of the eight categories.\<close>

definition CATEGORIES :: "string list" where
  "CATEGORIES =
     [''All'', ''Technology'', ''History'', ''Health & Wellness'', ''Science'',
      ''Business & Finance'', ''Arts & Culture'', ''Productivity'', ''Other'']"

text \<open>
  \<^verbatim>\<open>
  const filteredLinks = useMemo(() => {
    if (activeFilter === "All") { return links; }
    return links.filter(link => link.category === activeFilter);
  }, [links, activeFilter]);
  \<close>
  The strict comparison of an absent category with a string is false.
\<close>

definition filteredLinks :: "Link list \<Rightarrow> string \<Rightarrow> Link list" where
  "filteredLinks links activeFilter =
     (if activeFilter = ''All'' then links
      else filter (\<lambda>link. category link = Some activeFilter) links)"

subsection \<open>The reader page\<close>

text \<open>
  The state of \<open>ReadPage\<close>: \<open>link\<close>, \<open>isLoading\<close> and \<open>error\<close>, initially \<open>null\<close>, \<open>true\<close>
  and \<open>null\<close>.
\<close>

record read_state =
  link :: "Link_read option"
  isLoading :: bool
  error :: "string option"

definition initial_read_state :: read_state where
  "initial_read_state = \<lparr>link = None, isLoading = True, error = None\<rparr>"

text \<open>
  \<^verbatim>\<open>
  const fetchLink = async () => {
    try {
      setIsLoading(true);
      const response = await axios.get(`${API_URL}/links/${id}`);
      setLink(response.data);
    } catch (err) {
      setError('Failed to load the article. Please try again later.');
    } finally {
      setIsLoading(false);
    }
  };
  \<close>
  The outcome of the request is a parameter: the failure, or \<open>response.data\<close>.
\<close>

definition fetchLink :: "string + Link_read \<Rightarrow> read_state \<Rightarrow> read_state" where
  "fetchLink response st =
     (let st1 = st\<lparr>isLoading := True\<rparr>;
          st2 = (case response of
                   Inr data \<Rightarrow> st1\<lparr>link := Some data\<rparr>
                 | Inl err \<Rightarrow>
                     st1\<lparr>error := Some ''Failed to load the article. Please try again later.''\<rparr>)
      in st2\<lparr>isLoading := False\<rparr>)"

text \<open>The effect runs the request only if the route parameter \<open>id\<close> is truthy.\<close>

definition truthy :: "string option \<Rightarrow> bool" where
  "truthy s = (case s of None \<Rightarrow> False | Some v \<Rightarrow> v \<noteq> [])"

definition useEffect :: "string option \<Rightarrow> string + Link_read \<Rightarrow> read_state \<Rightarrow> read_state" where
  "useEffect ident response st = (if truthy ident then fetchLink response st else st)"

text \<open>
  What the page renders. Title and URL are rendered as text and as an attribute of React
  elements; \<open>html\<close> is the string given to \<open>dangerouslySetInnerHTML\<close>, the only place where a
  string reaches the document as markup.
  \<^verbatim>\<open>
  if (isLoading) { return <div ...>Loading article...</div>; }
  if (error) { return <div ...>{error}</div>; }
  if (!link) { return <div ...>Article not found.</div>; }
  const sanitizedContent = DOMPurify.sanitize(link.content);
  return (... <CardTitle>{link.title}</CardTitle> ... <a href={link.url}>{link.url}</a> ...
          <div dangerouslySetInnerHTML={{ __html: sanitizedContent }} /> ...);
  \<close>
  \<open>DOMPurify.sanitize\<close> is the library's function, a parameter here.
\<close>

datatype view =
    LoadingView
  | ErrorView string
  | NotFoundView
  | ArticleView (view_title: string) (view_url: string) (html: string)

definition ReadPage :: "(string \<Rightarrow> string) \<Rightarrow> read_state \<Rightarrow> view" where
  "ReadPage sanitize st =
     (if isLoading st then LoadingView
      else if truthy (error st) then ErrorView (the (error st))
      else (case link st of
              None \<Rightarrow> NotFoundView
            | Some l \<Rightarrow>
                (let sanitizedContent = sanitize (content l)
                 in ArticleView (title l) (url l) sanitizedContent)))"


subsection \<open>The reader page and the table\<close>

text \<open>
  The effect of the reader page sends one request,
  \<^verbatim>\<open>axios.get(`${API_URL}/links/${id}`)\<close>, which the backend answers from the table. The
  endpoint that answers it is not among the sources and is a parameter: from the table and
  the route parameter to the failure or to \<open>response.data\<close>. The page sends no other
  request, so opening it leaves the table as it is.
\<close>

record system =
  table :: db
  reader :: read_state

definition open_reader ::
  "(db \<Rightarrow> string option \<Rightarrow> string + Link_read) \<Rightarrow> string option \<Rightarrow> system \<Rightarrow> system" where
  "open_reader endpoint ident s =
     s\<lparr>reader := useEffect ident (endpoint (table s) ident) (reader s)\<rparr>"

section \<open>Concrete inputs\<close>

definition empty_db :: db where
  "empty_db = \<lparr>rows = [], next_id = 1\<rparr>"

text \<open>A status check that raises for the client and server error statuses.\<close>

definition status_check :: "Response \<Rightarrow> string option" where
  "status_check page =
     (if 400 \<le> status_code page \<and> status_code page < 600 then Some ''HTTPError'' else None)"

text \<open>
  Two pages, each with the bytes of its text: a document that is only an empty title
  element, \<^verbatim>\<open><title></title>\<close>, and the fragment \<^verbatim>\<open><img src=x onerror="alert(1)">\<close>.
\<close>

definition title_bytes :: bytes where
  "title_bytes =
     [0x3C, 0x74, 0x69, 0x74, 0x6C, 0x65, 0x3E, 0x3C, 0x2F, 0x74, 0x69, 0x74, 0x6C, 0x65, 0x3E]"

definition title_page :: Response where
  "title_page =
     \<lparr>status_code = 200, page_content = title_bytes, page_text = ''<title></title>'',
      encoding = None, apparent_encoding = ''ascii''\<rparr>"

definition img_fragment :: string where
  \<open>img_fragment = ''<img src=x onerror="alert(1)">''\<close>

definition img_bytes :: bytes where
  "img_bytes =
     [0x3C, 0x69, 0x6D, 0x67, 0x20, 0x73, 0x72, 0x63, 0x3D, 0x78, 0x20, 0x6F, 0x6E, 0x65,
      0x72, 0x72, 0x6F, 0x72, 0x3D, 0x22, 0x61, 0x6C, 0x65, 0x72, 0x74, 0x28, 0x31, 0x29,
      0x22, 0x3E]"

definition img_page :: Response where
  "img_page =
     \<lparr>status_code = 200, page_content = img_bytes, page_text = img_fragment,
      encoding = Some ''utf-8'', apparent_encoding = ''ascii''\<rparr>"

text \<open>
  Stand-ins for the libraries on these inputs. The decoder knows the two byte sequences.
  The parser of \<open>BeautifulSoup\<close> knows the document with the empty title element, given as
  bytes or as text: its \<open>soup.title\<close> is a tag with no child, whose \<open>.string\<close> is \<open>None\<close>; it
  knows the empty document, which has no title element; on any other input it gives up.
  The extractor returns a text as its own summary, under the title \<open>[no-title]\<close>, and
  raises on bytes, as the second tutorial reports.
\<close>

definition demo_decode :: "string \<Rightarrow> bytes \<Rightarrow> string" where
  "demo_decode enc b =
     (if b = title_bytes then ''<title></title>''
      else if b = img_bytes then img_fragment
      else [])"

definition demo_soup :: "markup \<Rightarrow> string + Soup" where
  "demo_soup m =
     (if m = RawBytes title_bytes \<or> m = DecodedText ''<title></title>''
        then Inr (Soup (Some (Tag None)))
      else if m = RawBytes [] \<or> m = DecodedText []
        then Inr (Soup None)
      else Inl ''document not covered'')"

definition demo_document :: "markup \<Rightarrow> string + Document" where
  "demo_document m =
     (case m of
        RawBytes b \<Rightarrow> Inl ''cannot use a string pattern on a bytes-like object''
      | DecodedText t \<Rightarrow> Inr \<lparr>doc_title = Inr ''[no-title]'', doc_summary = Inr t\<rparr>)"


definition env_demo :: env where
  "env_demo =
     \<lparr>requests_get =
        (\<lambda>u h. if u = ''https://example.com/empty-title'' then Inr title_page
               else if u = ''https://example.com/img'' then Inr img_page
               else Inl ''ConnectionError''),
      raise_for_status = status_check,
      BeautifulSoup = demo_soup,
      Document = demo_document,
      now = 1000,
      insert_error = None,
      decode = demo_decode,
      detect_encoding = (\<lambda>b. ''ascii'')\<rparr>"

text \<open>A server that answers 404.\<close>

definition page_404 :: Response where
  "page_404 =
     \<lparr>status_code = 404, page_content = [], page_text = [],
      encoding = None, apparent_encoding = ''ascii''\<rparr>"

definition env_404 :: env where
  "env_404 =
     \<lparr>requests_get = (\<lambda>u h. Inr page_404),
      raise_for_status = status_check,
      BeautifulSoup = demo_soup,
      Document = demo_document,
      now = 1000,
      insert_error = None,
      decode = demo_decode,
      detect_encoding = (\<lambda>b. ''ascii'')\<rparr>"

text \<open>The row of the image page, the table that holds it, and the record sent for it.\<close>

definition img_row :: row where
  "img_row =
     \<lparr>row_id = 1, row_created_at = 1000, row_url = ''https://example.com/img'',
      row_title = Some ''[no-title]'', row_content = Some img_fragment\<rparr>"

definition img_db :: db where
  "img_db = \<lparr>rows = [img_row], next_id = 2\<rparr>"

definition link_img :: Link_read where
  "link_img =
     \<lparr>link_id = 1, url = ''https://example.com/img'', title = ''[no-title]'',
      created_at = ''2025-01-01T00:00:00+00:00'', content = img_fragment\<rparr>"

text \<open>
  A stand-in for the endpoint of the reader page: it answers the request for the record 1
  from the row of the table with that identity.
\<close>

definition demo_endpoint :: "db \<Rightarrow> string option \<Rightarrow> string + Link_read" where
  "demo_endpoint d ident =
     (case find (\<lambda>r. ident = Some ''1'' \<and> row_id r = 1) (rows d) of
        None \<Rightarrow> Inl ''Not Found''
      | Some r \<Rightarrow>
          (case row_title r of
             None \<Rightarrow> Inl ''Internal Server Error''
           | Some t \<Rightarrow>
               (case row_content r of
                  None \<Rightarrow> Inl ''Internal Server Error''
                | Some c \<Rightarrow>
                    Inr \<lparr>link_id = row_id r, url = row_url r, title = t,
                         created_at = ''2025-01-01T00:00:00+00:00'', content = c\<rparr>)))"

text \<open>
  A stand-in for the library's sanitizer at one input: it drops the \<open>onerror\<close> attribute
  of the image fragment. It serves only to run the reader page on a concrete record.
\<close>

definition demo_sanitize :: "string \<Rightarrow> string" where
  \<open>demo_sanitize dirty = (if dirty = img_fragment then ''<img src="x">'' else [])\<close>

definition link_uncategorized :: Link where
  "link_uncategorized =
     \<lparr>link_id = 1, url = ''https://example.com'', title = ''Example Domain'',
      created_at = ''2025-01-01T00:00:00+00:00'', category = None\<rparr>"

definition link_science :: Link where
  "link_science =
     \<lparr>link_id = 2, url = ''https://example.org'', title = ''Example'',
      created_at = ''2025-01-02T00:00:00+00:00'', category = Some ''Science''\<rparr>"

section \<open>Properties of the backend\<close>

subsection \<open>What a successful and a failed ingestion do to the table\<close>

lemma extract_and_store_success:
  assumes "Document E m = Inr doc" and "doc_title doc = Inr ttl" and "doc_summary doc = Inr raw"
    and "insert_error E = None"
  shows "extract_and_store E d u m =
     (d\<lparr>rows := rows d @
         [\<lparr>row_id = next_id d, row_created_at = now E, row_url = u,
           row_title = Some ttl, row_content = Some raw\<rparr>],
        next_id := Suc (next_id d)\<rparr>,
      Inr \<lparr>row_id = next_id d, row_created_at = now E, row_url = u,
           row_title = Some ttl, row_content = Some raw\<rparr>)"
  using assms by (simp add: extract_and_store_def insert_row_def Let_def)


lemma parse_and_store_success:
  assumes "BeautifulSoup E m = Inr soup" and "insert_error E = None"
  shows "parse_and_store E d u m =
     (d\<lparr>rows := rows d @
         [\<lparr>row_id = next_id d, row_created_at = now E, row_url = u,
           row_title = mvp_title soup, row_content = None\<rparr>],
        next_id := Suc (next_id d)\<rparr>,
      Inr \<lparr>row_id = next_id d, row_created_at = now E, row_url = u,
           row_title = mvp_title soup, row_content = None\<rparr>)"
  using assms by (simp add: parse_and_store_def insert_row_def Let_def)

lemma add_link_fetched:
  assumes "requests_get E u headers = Inr page" and "raise_for_status E page = None"
  shows "add_link E d u = extract_and_store E d u (DecodedText (page_text page))"
  using assms by (simp add: add_link_def)

lemma add_link_mvp_fetched:
  assumes "requests_get E u headers = Inr page" and "raise_for_status E page = None"
  shows "add_link_mvp E d u = parse_and_store E d u (RawBytes (page_content page))"
  using assms by (simp add: add_link_mvp_def)

lemma extract_and_store_outcome:
  "(\<exists>e. extract_and_store E d u m = (d, Inl (HTTPException 500 e)))
   \<or> (\<exists>doc ttl raw r. Document E m = Inr doc \<and> doc_title doc = Inr ttl \<and>
         doc_summary doc = Inr raw \<and> row_title r = Some ttl \<and> row_content r = Some raw \<and>
         extract_and_store E d u m =
           (d\<lparr>rows := rows d @ [r], next_id := Suc (next_id d)\<rparr>, Inr r))"
  by (auto simp: extract_and_store_def insert_row_def Let_def split: sum.split option.split)

lemma add_link_outcome:
  "(\<exists>e. add_link E d u = (d, Inl (HTTPException 500 e)))
   \<or> (\<exists>page doc raw r. requests_get E u headers = Inr page \<and>
         Document E (DecodedText (page_text page)) = Inr doc \<and> doc_summary doc = Inr raw \<and>
         row_content r = Some raw \<and>
         add_link E d u = (d\<lparr>rows := rows d @ [r], next_id := Suc (next_id d)\<rparr>, Inr r))"
proof (cases "requests_get E u headers")
  case (Inl e)
  then show ?thesis by (simp add: add_link_def)
next
  case (Inr page)
  show ?thesis
  proof (cases "raise_for_status E page")
    case (Some e)
    with Inr show ?thesis by (simp add: add_link_def)
  next
    case None
    with Inr have eq: "add_link E d u = extract_and_store E d u (DecodedText (page_text page))"
      by (rule add_link_fetched)
    from extract_and_store_outcome [of E d u "DecodedText (page_text page)"] Inr
    show ?thesis unfolding eq by blast
  qed
qed

lemma add_link_keeps_rows: "prefix (rows d) (rows (fst (add_link E d u)))"
  using add_link_outcome [of E d u] by auto

lemma ReadPage_article:
  "ReadPage sanitize st = ArticleView t v h \<Longrightarrow>
   \<exists>l. link st = Some l \<and> t = title l \<and> v = url l \<and> h = sanitize (content l)"
  by (auto simp: ReadPage_def Let_def split: if_splits option.splits)

lemma ReadPage_after_open:
  assumes "ReadPage sanitize (useEffect ident response initial_read_state) = ArticleView t v h"
  shows "\<exists>data. response = Inr data \<and> h = sanitize (content data)"
  using assms
  by (cases response)
    (auto simp: ReadPage_def useEffect_def fetchLink_def initial_read_state_def truthy_def Let_def
      split: if_splits option.splits)

subsection \<open>Raw content in the table, sanitized content on the page\<close>

text \<open>
  C3. An ingestion either fails and leaves the table as it was, or appends one row whose
  content is the fragment of the extractor as it is (no sanitizer takes part in
  \<open>add_link\<close>); when the fetch, the extraction and the insertion succeed, it does append
  that row; and no ingestion changes a row already stored. Opening the reader page leaves
  the table as it is. If the endpoint serves the content of a stored row, then whenever
  the freshly opened page renders an article, the markup it hands to the document is the
  sanitizer's result on the content of a stored row; and in every state of the page, the
  markup handed to the document is the sanitizer's result on the content of the record
  the page holds, never that content itself.
\<close>

theorem content_stored_raw_sanitized_on_read:
  "((\<exists>e. add_link E d u = (d, Inl (HTTPException 500 e)))
     \<or> (\<exists>pg dc fragment r. requests_get E u headers = Inr pg \<and>
           Document E (DecodedText (page_text pg)) = Inr dc \<and> doc_summary dc = Inr fragment \<and>
           row_content r = Some fragment \<and>
           add_link E d u = (d\<lparr>rows := rows d @ [r], next_id := Suc (next_id d)\<rparr>, Inr r)))
   \<and> (requests_get E u headers = Inr page \<and> raise_for_status E page = None \<and>
      Document E (DecodedText (page_text page)) = Inr doc \<and> doc_title doc = Inr ttl \<and>
      doc_summary doc = Inr raw \<and> insert_error E = None \<longrightarrow>
        (\<exists>r. add_link E d u = (d\<lparr>rows := rows d @ [r], next_id := Suc (next_id d)\<rparr>, Inr r)
            \<and> row_content r = Some raw))
   \<and> prefix (rows d) (rows (fst (add_link E d u)))
   \<and> table (open_reader endpoint ident s) = table s
   \<and> ((\<forall>data. endpoint (table s) ident = Inr data \<longrightarrow>
          (\<exists>r \<in> set (rows (table s)). row_content r = Some (content data)))
       \<and> reader s = initial_read_state
       \<and> ReadPage sanitize (reader (open_reader endpoint ident s)) = ArticleView t v h \<longrightarrow>
        (\<exists>r \<in> set (rows (table s)). \<exists>stored. row_content r = Some stored \<and> h = sanitize stored))
   \<and> (ReadPage sanitize st = ArticleView tt vv hh \<longrightarrow>
        (\<exists>l. link st = Some l \<and> hh = sanitize (content l)))"
proof -
  have a: "(\<exists>e. add_link E d u = (d, Inl (HTTPException 500 e)))
     \<or> (\<exists>pg dc fragment r. requests_get E u headers = Inr pg \<and>
           Document E (DecodedText (page_text pg)) = Inr dc \<and> doc_summary dc = Inr fragment \<and>
           row_content r = Some fragment \<and>
           add_link E d u = (d\<lparr>rows := rows d @ [r], next_id := Suc (next_id d)\<rparr>, Inr r))"
    by (rule add_link_outcome)
  have b: "requests_get E u headers = Inr page \<and> raise_for_status E page = None \<and>
      Document E (DecodedText (page_text page)) = Inr doc \<and> doc_title doc = Inr ttl \<and>
      doc_summary doc = Inr raw \<and> insert_error E = None \<longrightarrow>
        (\<exists>r. add_link E d u = (d\<lparr>rows := rows d @ [r], next_id := Suc (next_id d)\<rparr>, Inr r)
            \<and> row_content r = Some raw)"
    by (simp add: add_link_fetched extract_and_store_success)
  have c: "prefix (rows d) (rows (fst (add_link E d u)))"
    by (rule add_link_keeps_rows)
  have e: "table (open_reader endpoint ident s) = table s"
    by (simp add: open_reader_def)
  have f: "(\<forall>data. endpoint (table s) ident = Inr data \<longrightarrow>
          (\<exists>r \<in> set (rows (table s)). row_content r = Some (content data)))
       \<and> reader s = initial_read_state
       \<and> ReadPage sanitize (reader (open_reader endpoint ident s)) = ArticleView t v h \<longrightarrow>
        (\<exists>r \<in> set (rows (table s)). \<exists>stored. row_content r = Some stored \<and> h = sanitize stored)"
  proof (intro impI, elim conjE)
    assume serves: "\<forall>data. endpoint (table s) ident = Inr data \<longrightarrow>
          (\<exists>r \<in> set (rows (table s)). row_content r = Some (content data))"
      and fresh: "reader s = initial_read_state"
      and shown: "ReadPage sanitize (reader (open_reader endpoint ident s)) = ArticleView t v h"
    from shown fresh
    have "ReadPage sanitize (useEffect ident (endpoint (table s) ident) initial_read_state) =
          ArticleView t v h"
      by (simp add: open_reader_def)
    then obtain data where sent: "endpoint (table s) ident = Inr data"
      and h: "h = sanitize (content data)"
      using ReadPage_after_open by blast
    from serves sent obtain r where "r \<in> set (rows (table s))"
      and "row_content r = Some (content data)"
      by blast
    with h show "\<exists>r \<in> set (rows (table s)). \<exists>stored. row_content r = Some stored \<and> h = sanitize stored"
      by blast
  qed
  have g: "ReadPage sanitize st = ArticleView tt vv hh \<longrightarrow>
        (\<exists>l. link st = Some l \<and> hh = sanitize (content l))"
    using ReadPage_article by blast
  from a b c e f g show ?thesis by (intro conjI)
qed

text \<open>
  The scenario of the image with an \<open>onerror\<close> attribute: the row keeps the attribute, the
  page shows what the sanitizer made of the stored content, and the table is as before.
\<close>

theorem content_stored_raw_sanitized_on_read_witness:
  \<open>requests_get env_demo ''https://example.com/img'' headers = Inr img_page
   \<and> raise_for_status env_demo img_page = None
   \<and> Document env_demo (DecodedText (page_text img_page)) =
       Inr \<lparr>doc_title = Inr ''[no-title]'', doc_summary = Inr ''<img src=x onerror="alert(1)">''\<rparr>
   \<and> insert_error env_demo = None
   \<and> (\<exists>r. add_link env_demo empty_db ''https://example.com/img'' =
            (empty_db\<lparr>rows := rows empty_db @ [r], next_id := Suc (next_id empty_db)\<rparr>, Inr r)
          \<and> row_content r = Some ''<img src=x onerror="alert(1)">'')
   \<and> add_link env_demo empty_db ''https://example.com/img'' = (img_db, Inr img_row)
   \<and> demo_endpoint img_db (Some ''1'') = Inr link_img
   \<and> table (open_reader demo_endpoint (Some ''1'') \<lparr>table = img_db, reader = initial_read_state\<rparr>) =
       img_db
   \<and> ReadPage demo_sanitize
        (reader (open_reader demo_endpoint (Some ''1'')
                   \<lparr>table = img_db, reader = initial_read_state\<rparr>)) =
        ArticleView ''[no-title]'' ''https://example.com/img'' ''<img src="x">''
   \<and> (\<exists>r \<in> set (rows img_db). \<exists>stored. row_content r = Some stored \<and>
          ''<img src="x">'' = demo_sanitize stored)\<close>
proof -
  let ?s = "\<lparr>table = img_db, reader = initial_read_state\<rparr>"
  let ?doc = \<open>\<lparr>doc_title = Inr ''[no-title]'', doc_summary = Inr ''<img src=x onerror="alert(1)">''\<rparr>\<close>
  have g: "requests_get env_demo ''https://example.com/img'' headers = Inr img_page"
    by (simp add: env_demo_def)
  have s: "raise_for_status env_demo img_page = None"
    by (simp add: env_demo_def img_page_def status_check_def)
  have x: "Document env_demo (DecodedText (page_text img_page)) = Inr ?doc"
    by (simp add: env_demo_def demo_document_def img_page_def img_fragment_def)
  have xt: "doc_title ?doc = Inr ''[no-title]''"
    by simp
  have xs: \<open>doc_summary ?doc = Inr ''<img src=x onerror="alert(1)">''\<close>
    by simp
  have i: "insert_error env_demo = None"
    by (simp add: env_demo_def)
  have whole: "add_link env_demo empty_db ''https://example.com/img'' = (img_db, Inr img_row)"
    by (simp add: add_link_def extract_and_store_def insert_row_def env_demo_def
        demo_document_def img_page_def status_check_def empty_db_def img_db_def img_row_def
        Let_def)
  have sent: "demo_endpoint img_db (Some ''1'') = Inr link_img"
    by (simp add: demo_endpoint_def img_db_def img_row_def link_img_def)
  have serves: "\<forall>data. demo_endpoint (table ?s) (Some ''1'') = Inr data \<longrightarrow>
          (\<exists>r \<in> set (rows (table ?s)). row_content r = Some (content data))"
    by (simp add: sent) (auto simp: link_img_def img_db_def img_row_def)
  have fresh: "reader ?s = initial_read_state"
    by simp
  have shown: \<open>ReadPage demo_sanitize (reader (open_reader demo_endpoint (Some ''1'') ?s)) =
        ArticleView ''[no-title]'' ''https://example.com/img'' ''<img src="x">''\<close>
    by (simp add: open_reader_def useEffect_def truthy_def sent fetchLink_def ReadPage_def
        initial_read_state_def link_img_def demo_sanitize_def Let_def)
  note inst = content_stored_raw_sanitized_on_read
      [where E = env_demo and u = "''https://example.com/img''" and page = img_page
      and doc = ?doc and ttl = "''[no-title]''" and raw = \<open>''<img src=x onerror="alert(1)">''\<close>
      and d = empty_db and endpoint = demo_endpoint and ident = "Some ''1''" and s = ?s
      and sanitize = demo_sanitize and t = "''[no-title]''" and v = "''https://example.com/img''"
      and h = \<open>''<img src="x">''\<close>]
  have stored: \<open>\<exists>r. add_link env_demo empty_db ''https://example.com/img'' =
            (empty_db\<lparr>rows := rows empty_db @ [r], next_id := Suc (next_id empty_db)\<rparr>, Inr r)
          \<and> row_content r = Some ''<img src=x onerror="alert(1)">''\<close>
    by (rule inst [THEN conjunct2, THEN conjunct1, THEN mp,
          OF conjI [OF g conjI [OF s conjI [OF x conjI [OF xt conjI [OF xs i]]]]]])
  have same: "table (open_reader demo_endpoint (Some ''1'') ?s) = img_db"
    using inst [THEN conjunct2, THEN conjunct2, THEN conjunct2, THEN conjunct1] by simp
  have derived: \<open>\<exists>r \<in> set (rows img_db). \<exists>stored. row_content r = Some stored \<and>
          ''<img src="x">'' = demo_sanitize stored\<close>
    using inst [THEN conjunct2, THEN conjunct2, THEN conjunct2, THEN conjunct2, THEN conjunct1,
        THEN mp, OF conjI [OF serves conjI [OF fresh shown]]]
    by simp
  from g s x i stored whole sent same shown derived show ?thesis
    by (intro conjI)
qed

subsection \<open>The category of a record\<close>

lemma category_set_CATEGORIES: "category_set = tl CATEGORIES"
  by (simp add: category_set_def CATEGORIES_def)

text \<open>
  C4. Whatever the classification backend does (a label of the set, a label outside the
  set, no answer, a timeout), the category the categorizer resolves to is a string, one
  of the eight labels.
\<close>

theorem classify_in_category_set:
  "classify backend ttl cnt \<in>
     set [''Technology'', ''History'', ''Health & Wellness'', ''Science'',
          ''Business & Finance'', ''Arts & Culture'', ''Productivity'', ''Other'']"
  by (simp add: classify_def category_set_def split: classification_outcome.split)

subsection \<open>Failure of the fetch\<close>

text \<open>
  C5. If the request raises (transport failure, timeout) or the status check raises (an
  error status such as 404 or 500), then both versions of \<open>add_link\<close> leave the table as
  it was and report one \<open>HTTPException\<close>, whose detail is the message of the exception
  raised.
\<close>

theorem fetch_failure_persists_nothing:
  assumes "requests_get E u headers = Inl e \<or>
           (requests_get E u headers = Inr page \<and> raise_for_status E page = Some e)"
  shows "add_link_mvp E d u = (d, Inl (HTTPException 500 e))
       \<and> add_link E d u = (d, Inl (HTTPException 500 e))"
  using assms by (auto simp: add_link_mvp_def add_link_def)

theorem fetch_failure_persists_nothing_witness:
  "requests_get env_404 ''https://example.com/missing'' headers = Inr page_404
   \<and> status_code page_404 = 404
   \<and> raise_for_status env_404 page_404 = Some ''HTTPError''
   \<and> add_link_mvp env_404 empty_db ''https://example.com/missing'' =
       (empty_db, Inl (HTTPException 500 ''HTTPError''))
   \<and> add_link env_404 empty_db ''https://example.com/missing'' =
       (empty_db, Inl (HTTPException 500 ''HTTPError''))"
proof -
  have g: "requests_get env_404 ''https://example.com/missing'' headers = Inr page_404"
    by (simp add: env_404_def)
  have c: "status_code page_404 = 404"
    by (simp add: page_404_def)
  have r: "raise_for_status env_404 page_404 = Some ''HTTPError''"
    by (simp add: env_404_def status_check_def page_404_def)
  note inst = fetch_failure_persists_nothing [OF disjI2 [OF conjI [OF g r]], of empty_db]
  from g c r inst [THEN conjunct1] inst [THEN conjunct2] show ?thesis
    by (intro conjI)
qed

subsection \<open>The title\<close>

lemma mvp_title_absent:
  "soup_title soup = None \<Longrightarrow> mvp_title soup = Some ''No title found''"
  by (simp add: mvp_title_def)

lemma mvp_title_present:
  "soup_title soup = Some t \<Longrightarrow> mvp_title soup = tag_string t"
  by (simp add: mvp_title_def)

lemma add_link_mvp_stores_mvp_title:
  assumes "requests_get E u headers = Inr page" and "raise_for_status E page = None"
    and "BeautifulSoup E (RawBytes (page_content page)) = Inr soup" and "insert_error E = None"
  shows "\<exists>r. add_link_mvp E d u = (d\<lparr>rows := rows d @ [r], next_id := Suc (next_id d)\<rparr>, Inr r)
           \<and> row_title r = mvp_title soup"
  using assms by (simp add: add_link_mvp_fetched parse_and_store_success)

text \<open>
  C6 fails on a page whose title element is empty. The page is fetched, its bytes
  \<^verbatim>\<open><title></title>\<close> are parsed, \<open>soup.title\<close> is a tag, so the sentinel is not taken, and
  the \<open>.string\<close> of the tag is \<open>None\<close>: the first version of \<open>add_link\<close> stores and returns a
  row with no title, where the claim has the title \<open>No title found\<close>.
\<close>

theorem empty_title_stored_as_None:
  "requests_get env_demo ''https://example.com/empty-title'' headers = Inr title_page
   \<and> BeautifulSoup env_demo (RawBytes (page_content title_page)) = Inr (Soup (Some (Tag None)))
   \<and> add_link_mvp env_demo empty_db ''https://example.com/empty-title'' =
     (\<lparr>rows = [\<lparr>row_id = 1, row_created_at = 1000,
                 row_url = ''https://example.com/empty-title'',
                 row_title = None, row_content = None\<rparr>],
       next_id = 2\<rparr>,
      Inr \<lparr>row_id = 1, row_created_at = 1000, row_url = ''https://example.com/empty-title'',
           row_title = None, row_content = None\<rparr>)"
  by (simp add: add_link_mvp_def parse_and_store_def env_demo_def title_page_def
      status_check_def demo_soup_def mvp_title_def insert_row_def empty_db_def Let_def)

subsection \<open>What the parsers are given\<close>



subsection \<open>The listing\<close>

text \<open>
  C8. For every state of the table, \<open>get_links\<close> returns all its rows, each as often as it
  is stored, ordered by \<open>created_at\<close> descending: of two rows of the result, the earlier
  one is not older than the later one.
\<close>

theorem get_links_newest_first:
  "sorted_wrt (\<lambda>a b. row_created_at b \<le> row_created_at a) (get_links d)
   \<and> mset (get_links d) = mset (rows d)"
proof -
  have "sorted (map (\<lambda>r. - row_created_at r) (get_links d))"
    unfolding get_links_def order_created_at_desc_def by (rule sorted_sort_key)
  then have "sorted_wrt (\<lambda>a b. row_created_at b \<le> row_created_at a) (get_links d)"
    by (simp add: sorted_map)
  moreover have "mset (get_links d) = mset (rows d)"
    by (simp add: get_links_def order_created_at_desc_def)
  ultimately show ?thesis by simp
qed

section \<open>Properties of the category filter\<close>

lemma filteredLinks_label:
  "activeFilter \<noteq> ''All'' \<Longrightarrow>
   filteredLinks links activeFilter = filter (\<lambda>link. category link = Some activeFilter) links"
  by (simp add: filteredLinks_def)

lemma label_not_All:
  "label \<in> set (tl CATEGORIES) \<Longrightarrow> label \<noteq> ''All''"
  by (auto simp: CATEGORIES_def)

text \<open>
  C9. For every list of records and every requested category label, that is every label
  other than the pseudo-label \<open>All\<close> (as each of the eight category labels is), the filter
  returns exactly the records whose category equals the label, each as often as it occurs
  in the list, as a subsequence of the list, so in the same relative order.
\<close>

theorem filteredLinks_exact_subsequence:
  assumes "label \<noteq> ''All''"
  shows "filteredLinks links label = filter (\<lambda>link. category link = Some label) links
       \<and> subseq (filteredLinks links label) links
       \<and> set (filteredLinks links label) = {link \<in> set links. category link = Some label}
       \<and> mset (filteredLinks links label) =
           filter_mset (\<lambda>link. category link = Some label) (mset links)"
proof -
  have eq: "filteredLinks links label = filter (\<lambda>link. category link = Some label) links"
    using assms by (rule filteredLinks_label)
  have sub: "subseq (filteredLinks links label) links"
    unfolding eq by simp
  have mem: "set (filteredLinks links label) = {link \<in> set links. category link = Some label}"
    unfolding eq by auto
  have cnt: "mset (filteredLinks links label) =
        filter_mset (\<lambda>link. category link = Some label) (mset links)"
    unfolding eq by simp
  from eq sub mem cnt show ?thesis by blast
qed

theorem filteredLinks_exact_subsequence_witness:
  "''Science'' \<in> set (tl CATEGORIES)
   \<and> filteredLinks [link_uncategorized, link_science, link_uncategorized] ''Science'' =
       [link_science]
   \<and> subseq [link_science] [link_uncategorized, link_science, link_uncategorized]"
proof -
  let ?links = "[link_uncategorized, link_science, link_uncategorized]"
  have m: "''Science'' \<in> set (tl CATEGORIES)"
    by (simp add: CATEGORIES_def)
  have f: "filter (\<lambda>l. category l = Some ''Science'') ?links = [link_science]"
    by (simp add: link_uncategorized_def link_science_def)
  note inst = filteredLinks_exact_subsequence [OF label_not_All [OF m], of ?links]
  have a: "filteredLinks ?links ''Science'' = [link_science]"
    using inst [THEN conjunct1] f by simp
  have b: "subseq [link_science] ?links"
    using inst [THEN conjunct2, THEN conjunct1] a by simp
  from m a b show ?thesis by (intro conjI)
qed

text \<open>
  C10. A record without a category is in no result of filtering by one of the eight
  labels; the filter \<open>All\<close> returns the list unchanged; and a record of the list without a
  category is in the result of a filter if and only if the filter is \<open>All\<close>.
\<close>

theorem uncategorized_only_under_All:
  assumes "category l = None"
  shows "(\<forall>label \<in> set (tl CATEGORIES). l \<notin> set (filteredLinks links label))
       \<and> filteredLinks links ''All'' = links
       \<and> (l \<in> set links \<longrightarrow> (l \<in> set (filteredLinks links a) \<longleftrightarrow> a = ''All''))"
  using assms by (auto simp: filteredLinks_def CATEGORIES_def)

theorem uncategorized_only_under_All_witness:
  "category link_uncategorized = None
   \<and> ''Science'' \<in> set (tl CATEGORIES)
   \<and> link_uncategorized \<notin> set (filteredLinks [link_science, link_uncategorized] ''Science'')
   \<and> filteredLinks [link_science, link_uncategorized] ''All'' = [link_science, link_uncategorized]
   \<and> link_uncategorized \<in> set [link_science, link_uncategorized]
   \<and> link_uncategorized \<notin> set (filteredLinks [link_science, link_uncategorized] ''Other'')
   \<and> link_uncategorized \<in> set (filteredLinks [link_science, link_uncategorized] ''All'')"
proof -
  let ?links = "[link_science, link_uncategorized]"
  have n: "category link_uncategorized = None"
    by (simp add: link_uncategorized_def)
  have s: "''Science'' \<in> set (tl CATEGORIES)"
    by (simp add: CATEGORIES_def)
  have m: "link_uncategorized \<in> set ?links"
    by simp
  note inst = uncategorized_only_under_All [OF n, of ?links]
  have a: "link_uncategorized \<notin> set (filteredLinks ?links ''Science'')"
    by (rule inst [THEN conjunct1, THEN bspec, OF s])
  have b: "filteredLinks ?links ''All'' = ?links"
    by (rule inst [THEN conjunct2, THEN conjunct1])
  have c: "link_uncategorized \<notin> set (filteredLinks ?links ''Other'')"
    using inst [of "''Other''", THEN conjunct2, THEN conjunct2, rule_format, OF m] by simp
  have e: "link_uncategorized \<in> set (filteredLinks ?links ''All'')"
    using inst [of "''All''", THEN conjunct2, THEN conjunct2, rule_format, OF m] by simp
  from n s a b m c e show ?thesis by (intro conjI)
qed

end

